theory Spec2Isabelle
  imports Main
begin

section \<open>Errors and request values\<close>

text \<open>
  \<^verbatim>\<open>createError(message, statusCode)\<close> builds an error that carries its HTTP status. An
  exception raised by the object-document mapper or the driver carries none: the error
  middleware of the application answers it with \<^verbatim>\<open>err.statusCode || 500\<close>.
\<close>

datatype error = HttpError nat string | Thrown

definition createError :: "string \<Rightarrow> nat \<Rightarrow> error" where
  "createError message code = HttpError code message"

fun statusCode :: "error \<Rightarrow> nat" where
  "statusCode (HttpError code message) = code"
| "statusCode Thrown = 500"

text \<open>
  Request fields and stored text fields are strings, a character standing for a code unit
  below 256, so that \<open>length\<close> is the \<^verbatim>\<open>.length\<close> of the source. The handlers only ever
  test such a field for truthiness (\<^verbatim>\<open>!x\<close>, \<^verbatim>\<open>x ? a : b\<close>), where a missing field and
  the empty string take the same branch, so the empty string stands for both.
\<close>

definition truthy :: "string \<Rightarrow> bool" where
  "truthy x = (x \<noteq> [])"

text \<open>
  The schema option \<^verbatim>\<open>trim: true\<close> strips white space from both ends of a string when
  it is set, as \<^verbatim>\<open>String.prototype.trim\<close> does: tab, line feed, vertical tab, form feed,
  carriage return, space and no-break space are the white space below 256.
\<close>

definition is_space :: "char \<Rightarrow> bool" where
  "is_space c =
     (c \<in> set [CHR 0x09, CHR 0x0A, CHR 0x0B, CHR 0x0C, CHR 0x0D, CHR 0x20, CHR 0xA0])"

definition trim :: "string \<Rightarrow> string" where
  "trim x = rev (dropWhile is_space (rev (dropWhile is_space x)))"

section \<open>The company store\<close>

text \<open>
  \<^verbatim>\<open>models/Company.js\<close>: the collection has a unique index on \<^verbatim>\<open>companyId\<close>, so it is a
  partial map from the \<^verbatim>\<open>companyId\<close> to the rest of the document. Logo, brand colour and
  the timestamps play no part in the handlers below and are left out.
\<close>

datatype training_status = in_progress | completed | failed

record company =
  name :: string
  documentName :: string
  documentContext :: string
  trainingStatus :: training_status
  chatbotUrl :: string

text \<open>
  \<^verbatim>\<open>models/CompanyContext.js\<close>: no unique index; the collection is the list of its
  documents in insertion order. \<^verbatim>\<open>version\<close> is a JavaScript number, that is a double;
  the stores here hold integer-valued ones, as the write path makes them.
\<close>

record company_context =
  company_id :: string
  contextText :: string
  version :: int
  isActive :: bool

record store =
  companies :: "string \<rightharpoonup> company"
  contexts :: "company_context list"

definition empty_store :: store where
  "empty_store = \<lparr>companies = Map.empty, contexts = []\<rparr>"

text \<open>\<^verbatim>\<open>CompanyContext.find({ company_id })\<close>\<close>

definition find_contexts :: "string \<Rightarrow> company_context list \<Rightarrow> company_context list" where
  "find_contexts cid cs = filter (\<lambda>c. company_id c = cid) cs"

text \<open>\<^verbatim>\<open>CompanyContext.find({ company_id, isActive: true })\<close>\<close>

definition find_active :: "string \<Rightarrow> company_context list \<Rightarrow> company_context list" where
  "find_active cid cs = filter (\<lambda>c. company_id c = cid \<and> isActive c) cs"

text \<open>
  \<^verbatim>\<open>findOne(...).sort({ version: -1 })\<close>: a document of greatest version among the
  matching ones, none when nothing matches. Between documents of equal version the
  earliest inserted is taken.
\<close>

fun latest :: "company_context list \<Rightarrow> company_context option" where
  "latest [] = None"
| "latest (c # cs) =
     (case latest cs of
        None \<Rightarrow> Some c
      | Some b \<Rightarrow> if version c < version b then Some b else Some c)"

text \<open>\<^verbatim>\<open>CompanyContext.updateMany({ company_id }, { isActive: false })\<close>\<close>

definition deactivate_all :: "string \<Rightarrow> company_context list \<Rightarrow> company_context list" where
  "deactivate_all cid cs =
     map (\<lambda>c. if company_id c = cid then c\<lparr>isActive := False\<rparr> else c) cs"

subsection \<open>createCompany\<close>

record create_body =
  b_companyId :: string
  b_name :: string
  b_documentName :: string
  b_documentContext :: string
  b_chatbotUrl :: string

text \<open>
  The two inserts run in one transaction. \<open>commit\<close> says whether the driver carries the
  transaction through; the \<^verbatim>\<open>catch\<close> block aborts it, which leaves the store as it was,
  and hands the exception on. The \<^verbatim>\<open>required\<close> validator of \<^verbatim>\<open>name\<close> sees the trimmed
  string and raises inside the \<^verbatim>\<open>try\<close> block when nothing is left of it.
\<close>

definition createCompany ::
  "create_body \<Rightarrow> bool \<Rightarrow> store \<Rightarrow> (error + string \<times> company) \<times> store" where
  "createCompany body commit s =
     (if \<not> truthy (b_companyId body) \<or> \<not> truthy (b_name body)
         \<or> \<not> truthy (b_documentContext body) \<or> \<not> truthy (b_chatbotUrl body)
      then (Inl (createError
              ''Please provide companyId, name, documentContext, and chatbotUrl'' 400), s)
      else
        (case companies s (b_companyId body) of
           Some existingCompany \<Rightarrow>
             (Inl (createError
                (''Company with ID '' @ b_companyId body @ '' already exists'') 400), s)
         | None \<Rightarrow>
             (let company = \<lparr>name = trim (b_name body),
                             documentName = trim (b_documentName body),
                             documentContext = b_documentContext body,
                             trainingStatus = completed,
                             chatbotUrl = b_chatbotUrl body\<rparr>
              in if \<not> truthy (name company) \<or> \<not> commit then (Inl Thrown, s)
                 else
                   (Inr (b_companyId body, company),
                    s\<lparr>companies := (companies s)(b_companyId body \<mapsto> company),
                      contexts := contexts s @
                        [\<lparr>company_id = b_companyId body,
                          contextText = b_documentContext body,
                          version = 1,
                          isActive = True\<rparr>]\<rparr>))))"

subsection \<open>deleteCompany\<close>

definition deleteCompany :: "string \<Rightarrow> store \<Rightarrow> (error + unit) \<times> store" where
  "deleteCompany companyId s =
     (case companies s companyId of
        None \<Rightarrow>
          (Inl (createError (''Company with ID '' @ companyId @ '' not found'') 404), s)
      | Some company \<Rightarrow> (Inr (), s\<lparr>companies := (companies s)(companyId := None)\<rparr>))"

subsection \<open>getCompanyContext\<close>

record context_response =
  r_company_id :: string
  r_company_name :: string
  r_context :: string
  r_version :: int
  r_source :: string

definition getCompanyContext :: "string \<Rightarrow> store \<Rightarrow> error + context_response" where
  "getCompanyContext companyId s =
     (case companies s companyId of
        None \<Rightarrow> Inl (createError (''Company with ID '' @ companyId @ '' not found'') 404)
      | Some company \<Rightarrow>
          (case latest (find_active companyId (contexts s)) of
             None \<Rightarrow>
               if \<not> truthy (documentContext company)
               then Inl (createError
                      (''No context available for company with ID '' @ companyId) 404)
               else Inr \<lparr>r_company_id = companyId,
                         r_company_name = name company,
                         r_context = documentContext company,
                         r_version = 1,
                         r_source = ''company_fallback''\<rparr>
           | Some c \<Rightarrow>
               Inr \<lparr>r_company_id = companyId,
                    r_company_name = name company,
                    r_context = contextText c,
                    r_version = version c,
                    r_source = ''context_collection''\<rparr>))"

subsection \<open>updateCompanyContext\<close>

text \<open>
  \<^verbatim>\<open>latestContext.version + 1\<close> is an addition of doubles. On an integer-valued double \<open>v\<close>
  the sum is exact from \<open>- 2 ^ 53\<close> up to \<open>2 ^ 53 - 1\<close>. Beyond, only every second integer
  is a double up to magnitude \<open>2 ^ 54\<close>, where \<open>v + 1\<close> lies half way between \<open>v\<close> and
  \<open>v + 2\<close> and is rounded to the one with the even significand; from magnitude \<open>2 ^ 54\<close>
  on the sum is \<open>v\<close> again.
\<close>

definition js_add1 :: "int \<Rightarrow> int" where
  "js_add1 v =
     (if - (2 ^ 53) \<le> v \<and> v < 2 ^ 53 then v + 1
      else if 2 ^ 54 \<le> \<bar>v\<bar> then v
      else if v mod 4 = 0 then v else v + 2)"

record update_response =
  u_company_id :: string
  u_company_name :: string
  u_context :: string
  u_version :: int
  u_isActive :: bool

text \<open>
  As in \<open>createCompany\<close>, \<open>commit\<close> says whether the transaction goes through; an abort
  leaves the store as it was.
\<close>

definition updateCompanyContext ::
  "string \<Rightarrow> string \<Rightarrow> bool \<Rightarrow> store \<Rightarrow> (error + update_response) \<times> store" where
  "updateCompanyContext companyId ctx commit s =
     (if \<not> truthy ctx
      then (Inl (createError ''Please provide the context to update'' 400), s)
      else
        (case companies s companyId of
           None \<Rightarrow>
             (Inl (createError (''Company with ID '' @ companyId @ '' not found'') 404), s)
         | Some company \<Rightarrow>
             (let latestContext = latest (find_contexts companyId (contexts s));
                  newVersion = (case latestContext of
                                  Some l \<Rightarrow> js_add1 (version l)
                                | None \<Rightarrow> 1);
                  deactivated = deactivate_all companyId (contexts s);
                  newContext = \<lparr>company_id = companyId,
                                contextText = ctx,
                                version = newVersion,
                                isActive = True\<rparr>;
                  updated = company\<lparr>documentContext := ctx\<rparr>
              in if \<not> commit then (Inl Thrown, s)
                 else
                   (Inr \<lparr>u_company_id = companyId,
                         u_company_name = name company,
                         u_context = contextText newContext,
                         u_version = version newContext,
                         u_isActive = isActive newContext\<rparr>,
                    s\<lparr>contexts := deactivated @ [newContext],
                      companies := (companies s)(companyId \<mapsto> updated)\<rparr>))))"


subsection \<open>The context-diagnostic route\<close>

datatype suggestion = CREATE_CONTEXT | UPLOAD_DOCUMENT | FIX_ACTIVE_CONTEXTS

record context_summary =
  cs_version :: int
  cs_isActive :: bool
  cs_contextLength :: nat

record diagnostic_missing =
  m_companyId :: string
  m_exists :: bool
  m_action :: string

record diagnostic_report =
  d_companyId :: string
  d_exists :: bool
  d_companyName :: string
  d_hasDocumentContext :: bool
  d_documentContextLength :: nat
  d_contextsCount :: nat
  d_activeContexts :: nat
  d_contexts :: "context_summary list"
  d_suggestion :: "suggestion option"
  d_action :: string

datatype diagnostic = Missing diagnostic_missing | Report diagnostic_report

record diagnostic_response =
  status :: nat
  success :: bool
  error_message :: string
  diagnostic :: "diagnostic option"

text \<open>
  \<open>models_available\<close>: whether the application carries both models. \<open>fault\<close>: the message
  of an exception raised by one of the two queries, if one is raised; the \<^verbatim>\<open>catch\<close> block
  answers it. The listing is sorted by descending version.
\<close>

definition contextDiagnostic ::
  "bool \<Rightarrow> string option \<Rightarrow> string \<Rightarrow> store \<Rightarrow> diagnostic_response" where
  "contextDiagnostic models_available fault companyId s =
     (if \<not> models_available
      then \<lparr>status = 500, success = False,
            error_message = ''Models not available in the application context'',
            diagnostic = None\<rparr>
      else
        (case fault of
           Some message \<Rightarrow>
             \<lparr>status = 500, success = False,
              error_message =
                (if truthy message then message else ''Error running context diagnostic''),
              diagnostic = None\<rparr>
         | None \<Rightarrow>
             (case companies s companyId of
                None \<Rightarrow>
                  \<lparr>status = 404, success = False,
                   error_message = ''Company not found'',
                   diagnostic = Some (Missing
                     \<lparr>m_companyId = companyId, m_exists = False,
                      m_action = ''Company must be created first''\<rparr>)\<rparr>
              | Some company \<Rightarrow>
                  (let found = sort_key (\<lambda>c. - version c)
                                 (find_contexts companyId (contexts s));
                       hasDocumentContext =
                         (truthy (documentContext company)
                          \<and> length (documentContext company) > 100);
                       report =
                         \<lparr>d_companyId = companyId,
                          d_exists = True,
                          d_companyName = name company,
                          d_hasDocumentContext = hasDocumentContext,
                          d_documentContextLength =
                            (if truthy (documentContext company)
                             then length (documentContext company) else 0),
                          d_contextsCount = length found,
                          d_activeContexts = length (filter isActive found),
                          d_contexts =
                            map (\<lambda>c. \<lparr>cs_version = version c,
                                       cs_isActive = isActive c,
                                       cs_contextLength =
                                         (if truthy (contextText c)
                                          then length (contextText c) else 0)\<rparr>) found,
                          d_suggestion = None,
                          d_action = []\<rparr>;
                       report' =
                         (if length found = 0 \<and> hasDocumentContext
                          then report\<lparr>d_suggestion := Some CREATE_CONTEXT,
                                 d_action := ''POST to /api/companies/'' @ companyId
                                             @ ''/context with the documentContext''\<rparr>
                          else if length found = 0 \<and> \<not> hasDocumentContext
                          then report\<lparr>d_suggestion := Some UPLOAD_DOCUMENT,
                                 d_action :=
                                   ''Upload a document and train the model again''\<rparr>
                          else if length (filter isActive found) > 1
                          then report\<lparr>d_suggestion := Some FIX_ACTIVE_CONTEXTS,
                                 d_action :=
                                   ''Multiple active contexts found, should be fixed''\<rparr>
                          else report)
                   in \<lparr>status = 200, success = True, error_message = [],
                       diagnostic = Some (Report report')\<rparr>))))"

section \<open>Histories of company operations\<close>

datatype op =
    CreateCompany create_body bool
  | UpdateCompanyContext string string bool
  | DeleteCompany string

fun step :: "op \<Rightarrow> store \<Rightarrow> store" where
  "step (CreateCompany body commit) s = snd (createCompany body commit s)"
| "step (UpdateCompanyContext companyId ctx commit) s =
     snd (updateCompanyContext companyId ctx commit s)"
| "step (DeleteCompany companyId) s = snd (deleteCompany companyId s)"

definition run :: "op list \<Rightarrow> store \<Rightarrow> store" where
  "run ops s = fold step ops s"

fun is_delete :: "op \<Rightarrow> bool" where
  "is_delete (DeleteCompany companyId) = True"
| "is_delete (CreateCompany body commit) = False"
| "is_delete (UpdateCompanyContext companyId ctx commit) = False"

definition succeeds :: "(error + 'a) \<times> store \<Rightarrow> bool" where
  "succeeds r = (case fst r of Inl e \<Rightarrow> False | Inr v \<Rightarrow> True)"

text \<open>The call is a \<open>createCompany\<close> for this \<open>companyId\<close> that succeeds in this store.\<close>

fun creates :: "string \<Rightarrow> op \<Rightarrow> store \<Rightarrow> bool" where
  "creates cid (CreateCompany body commit) s =
     (b_companyId body = cid \<and> succeeds (createCompany body commit s))"
| "creates cid (UpdateCompanyContext companyId ctx commit) s = False"
| "creates cid (DeleteCompany companyId) s = False"

text \<open>The call is a \<open>deleteCompany\<close> of this \<open>companyId\<close> that succeeds in this store.\<close>

fun deletes :: "string \<Rightarrow> op \<Rightarrow> store \<Rightarrow> bool" where
  "deletes cid (DeleteCompany companyId) s =
     (companyId = cid \<and> succeeds (deleteCompany companyId s))"
| "deletes cid (CreateCompany body commit) s = False"
| "deletes cid (UpdateCompanyContext companyId ctx commit) s = False"

text \<open>
  Re-creation: running the calls from store \<open>s\<close>, some \<open>createCompany\<close> for the
  \<open>companyId\<close> succeeds after a \<open>deleteCompany\<close> of it has succeeded. \<open>deleted\<close> says
  whether such a deletion has already happened before the first call.
\<close>

fun recreates :: "string \<Rightarrow> bool \<Rightarrow> op list \<Rightarrow> store \<Rightarrow> bool" where
  "recreates cid deleted [] s = False"
| "recreates cid deleted (x # xs) s =
     ((deleted \<and> creates cid x s)
      \<or> recreates cid (deleted \<or> deletes cid x s) xs (step x s))"

definition versions_of :: "string \<Rightarrow> store \<Rightarrow> int list" where
  "versions_of companyId s = map version (find_contexts companyId (contexts s))"

definition active_count :: "string \<Rightarrow> store \<Rightarrow> nat" where
  "active_count companyId s = length (find_active companyId (contexts s))"

text \<open>The list \<open>n, n + 1, n + 2, ...\<close>: strictly increasing by steps of one from \<open>n\<close>.\<close>

fun consecutive_from :: "int \<Rightarrow> int list \<Rightarrow> bool" where
  "consecutive_from n [] = True"
| "consecutive_from n (v # vs) = (v = n \<and> consecutive_from (n + 1) vs)"

section \<open>Teams\<close>

text \<open>
  \<^verbatim>\<open>models/Team.js\<close>, the fields that \<^verbatim>\<open>removeTeamMember\<close> reads: the owner, which the
  schema requires, and the membership entries in order, each with its role and its user
  reference. The schema does not require the user reference: an entry without one has
  \<open>None\<close>. Teams are kept by their identifier.
\<close>

record member =
  user :: "string option"
  role :: string

record team =
  owner :: string
  members :: "member list"

text \<open>
  \<^verbatim>\<open>team.members.find(member => member.user.toString() === uid)\<close>: the first entry of that
  user. \<^verbatim>\<open>toString\<close> on a missing user reference raises a TypeError, so an entry without
  user that is met before a match ends the search with an exception.
\<close>

fun find_member :: "string \<Rightarrow> member list \<Rightarrow> error + member option" where
  "find_member uid [] = Inr None"
| "find_member uid (m # ms) =
     (case user m of
        None \<Rightarrow> Inl Thrown
      | Some u \<Rightarrow> if u = uid then Inr (Some m) else find_member uid ms)"

text \<open>
  \<^verbatim>\<open>team.members.findIndex(member => member.user.toString() === uid)\<close>, with \<open>None\<close> for
  the source's \<open>-1\<close>.
\<close>

fun findIndex_member :: "string \<Rightarrow> member list \<Rightarrow> error + nat option" where
  "findIndex_member uid [] = Inr None"
| "findIndex_member uid (m # ms) =
     (case user m of
        None \<Rightarrow> Inl Thrown
      | Some u \<Rightarrow>
          if u = uid then Inr (Some 0)
          else (case findIndex_member uid ms of
                  Inl e \<Rightarrow> Inl e
                | Inr None \<Rightarrow> Inr None
                | Inr (Some i) \<Rightarrow> Inr (Some (Suc i))))"

text \<open>\<^verbatim>\<open>xs.splice(i, 1)\<close>\<close>

definition splice1 :: "nat \<Rightarrow> 'a list \<Rightarrow> 'a list" where
  "splice1 i xs = take i xs @ drop (Suc i) xs"

text \<open>The \<^verbatim>\<open>enum\<close> validator of \<^verbatim>\<open>members.role\<close>, run by \<^verbatim>\<open>team.save()\<close>.\<close>

definition valid_role :: "string \<Rightarrow> bool" where
  "valid_role r = (r \<in> set [''admin'', ''member'', ''viewer''])"

text \<open>
  \<open>teamId\<close> is \<^verbatim>\<open>req.params.id\<close>, \<open>userId\<close> is \<^verbatim>\<open>req.params.userId\<close> (the member to
  remove) and \<open>caller\<close> is \<^verbatim>\<open>req.user.id\<close>. \<^verbatim>\<open>Team.findById\<close> casts the identifier to an
  ObjectId and raises a CastError when it cannot; \<open>isObjectId\<close> is that test of the
  object-document mapper. \<^verbatim>\<open>team.save()\<close> validates the remaining membership entries;
  \<open>saved\<close> says whether the rest of the save (the validators of the fields left out of
  the record, the driver) goes through. Every exception reaches the \<^verbatim>\<open>catch\<close> block and
  leaves the stored teams as they were.
\<close>

definition removeTeamMember ::
  "(string \<Rightarrow> bool) \<Rightarrow> bool \<Rightarrow> string \<Rightarrow> string \<Rightarrow> string \<Rightarrow> (string \<rightharpoonup> team)
     \<Rightarrow> (error + team) \<times> (string \<rightharpoonup> team)" where
  "removeTeamMember isObjectId saved teamId userId caller teams =
     (if \<not> isObjectId teamId then (Inl Thrown, teams)
      else
        (case teams teamId of
           None \<Rightarrow> (Inl (createError ''Team not found'' 404), teams)
         | Some team \<Rightarrow>
             (case find_member caller (members team) of
                Inl e \<Rightarrow> (Inl e, teams)
              | Inr userMember \<Rightarrow>
                  if (case userMember of
                        None \<Rightarrow> True
                      | Some m \<Rightarrow> role m \<noteq> ''owner'' \<and> role m \<noteq> ''admin'')
                  then (Inl (createError ''Not authorized to remove members'' 403), teams)
                  else if owner team = userId
                  then (Inl (createError ''Team owner cannot be removed'' 400), teams)
                  else
                    (case findIndex_member userId (members team) of
                       Inl e \<Rightarrow> (Inl e, teams)
                     | Inr None \<Rightarrow>
                         (Inl (createError ''User is not a team member'' 404), teams)
                     | Inr (Some memberIndex) \<Rightarrow>
                         (let team' =
                                team\<lparr>members := splice1 memberIndex (members team)\<rparr>
                          in if \<not> list_all valid_role (map role (members team'))
                                \<or> \<not> saved
                             then (Inl Thrown, teams)
                             else (Inr team', teams(teamId \<mapsto> team')))))))"

text \<open>
  A string of 24 hexadecimal digits is cast to an ObjectId by every version of the
  object-document mapper, and a string of two characters by none; \<open>hex24\<close> stands for
  \<open>isObjectId\<close> in the examples.
\<close>

definition is_hex :: "char \<Rightarrow> bool" where
  "is_hex c = (c \<in> set ''0123456789abcdefABCDEF'')"

definition hex24 :: "string \<Rightarrow> bool" where
  "hex24 x = (length x = 24 \<and> list_all is_hex x)"

section \<open>Invariants of the versioned store\<close>

text \<open>
  What \<open>createCompany\<close> and \<open>updateCompanyContext\<close> keep for a company: version records
  exist only while the company record does, and at most one is active.
\<close>

definition single_active :: "string \<Rightarrow> store \<Rightarrow> bool" where
  "single_active cid s =
     ((companies s cid = None \<longrightarrow> find_contexts cid (contexts s) = [])
      \<and> active_count cid s \<le> 1)"

text \<open>
  What the three operations keep as long as the company is not re-created: the version
  numbers in insertion order are 1, 2, 3, ...; before a deletion, version records exist
  only while the company record does; after a deletion, the company record is absent.
\<close>

definition versioned :: "string \<Rightarrow> bool \<Rightarrow> store \<Rightarrow> bool" where
  "versioned cid deleted s =
     (consecutive_from 1 (versions_of cid s)
      \<and> (if deleted then companies s cid = None
         else (companies s cid = None \<longrightarrow> find_contexts cid (contexts s) = [])))"

section \<open>Example data\<close>

definition acme :: "string \<Rightarrow> create_body" where
  "acme ctx = \<lparr>b_companyId = ''c1'', b_name = ''Acme'', b_documentName = [],
               b_documentContext = ctx, b_chatbotUrl = ''/c1''\<rparr>"

definition acme_company :: company where
  "acme_company = \<lparr>name = ''Acme'', documentName = [], documentContext = ''ctx-v2'',
                   trainingStatus = completed, chatbotUrl = ''/c1''\<rparr>"

text \<open>A company after one update: version 1 inactive, version 2 active.\<close>

definition acme_store :: store where
  "acme_store =
     \<lparr>companies = [''c1'' \<mapsto> acme_company],
      contexts = [\<lparr>company_id = ''c1'', contextText = ''ctx-v1'', version = 1,
                   isActive = False\<rparr>,
                  \<lparr>company_id = ''c1'', contextText = ''ctx-v2'', version = 2,
                   isActive = True\<rparr>]\<rparr>"

text \<open>The same company with both version records marked active.\<close>

definition multi_active_store :: store where
  "multi_active_store =
     \<lparr>companies = [''c1'' \<mapsto> acme_company],
      contexts = [\<lparr>company_id = ''c1'', contextText = ''ctx-v1'', version = 1,
                   isActive = True\<rparr>,
                  \<lparr>company_id = ''c1'', contextText = ''ctx-v2'', version = 2,
                   isActive = True\<rparr>]\<rparr>"

text \<open>A company record inserted directly, with a short context and no version record.\<close>

definition legacy_company :: company where
  "legacy_company = \<lparr>name = ''Legacy'', documentName = [], documentContext = ''Y'',
                     trainingStatus = completed, chatbotUrl = ''/legacy''\<rparr>"

definition legacy_store :: store where
  "legacy_store = \<lparr>companies = [''legacy'' \<mapsto> legacy_company], contexts = []\<rparr>"

text \<open>A company record without context text whose only version record is inactive.\<close>

definition bare_company :: company where
  "bare_company = \<lparr>name = ''Bare'', documentName = [], documentContext = [],
                   trainingStatus = failed, chatbotUrl = ''/bare''\<rparr>"

definition bare_store :: store where
  "bare_store =
     \<lparr>companies = [''bare'' \<mapsto> bare_company],
      contexts = [\<lparr>company_id = ''bare'', contextText = ''old'', version = 1,
                   isActive = False\<rparr>]\<rparr>"

text \<open>
  A history with deletions but no re-creation: a deletion answered 404, a creation, an
  update, a deletion, and an update answered 404.
\<close>

definition history1 :: "op list" where
  "history1 = [DeleteCompany ''c1'',
               CreateCompany (acme ''ctx-v1'') True,
               UpdateCompanyContext ''c1'' ''ctx-v2'' True,
               DeleteCompany ''c1'',
               UpdateCompanyContext ''c1'' ''ctx-v3'' True]"


text \<open>A team of an owner, a plain member and an admin, and a user outside the team.\<close>

definition team_t1 :: string where
  "team_t1 = ''64b7f0c2a1d3e4f5a6b7c8d1''"

definition team_t9 :: string where
  "team_t9 = ''64b7f0c2a1d3e4f5a6b7c8d9''"

definition user_u1 :: string where
  "user_u1 = ''5f1a2b3c4d5e6f708192a3b1''"

definition user_u2 :: string where
  "user_u2 = ''5f1a2b3c4d5e6f708192a3b2''"

definition user_u3 :: string where
  "user_u3 = ''5f1a2b3c4d5e6f708192a3b3''"

definition user_u4 :: string where
  "user_u4 = ''5f1a2b3c4d5e6f708192a3b4''"

definition team1 :: team where
  "team1 = \<lparr>owner = user_u1,
            members = [\<lparr>user = Some user_u1, role = ''owner''\<rparr>,
                       \<lparr>user = Some user_u2, role = ''member''\<rparr>,
                       \<lparr>user = Some user_u3, role = ''admin''\<rparr>]\<rparr>"

definition teams1 :: "string \<rightharpoonup> team" where
  "teams1 = [team_t1 \<mapsto> team1]"

section \<open>Auxiliary facts\<close>

lemma trim_Nil: "trim [] = []"
  by (simp add: trim_def)

lemma trim_Acme: "trim ''Acme'' = ''Acme''"
  by (simp add: trim_def is_space_def)

lemma acme_simps:
  "b_companyId (acme ctx) = ''c1''" "b_name (acme ctx) = ''Acme''"
  "b_documentName (acme ctx) = []" "b_documentContext (acme ctx) = ctx"
  "b_chatbotUrl (acme ctx) = ''/c1''"
  by (simp_all add: acme_def)

lemma latest_None: "latest cs = None \<longleftrightarrow> cs = []"
  by (cases cs) (auto split: option.splits)

lemma latest_Max:
  "latest cs = Some l \<Longrightarrow> version l = Max (set (map version cs))"
proof (induction cs arbitrary: l)
  case Nil
  then show ?case by simp
next
  case (Cons c cs)
  show ?case
  proof (cases "latest cs")
    case None
    then have "cs = []" by (simp add: latest_None)
    with Cons.prems show ?thesis by simp
  next
    case (Some b)
    then have b: "version b = Max (set (map version cs))" by (rule Cons.IH)
    from Some have ne: "cs \<noteq> []" by auto
    have "Max (set (map version (c # cs))) = max (version c) (Max (set (map version cs)))"
      using ne by simp
    with Cons.prems Some b show ?thesis by (auto split: if_splits)
  qed
qed

lemma js_add1_safe: "- (2 ^ 53) \<le> v \<Longrightarrow> v < 2 ^ 53 \<Longrightarrow> js_add1 v = v + 1"
  by (simp add: js_add1_def)


lemma find_contexts_append:
  "find_contexts cid (xs @ ys) = find_contexts cid xs @ find_contexts cid ys"
  by (simp add: find_contexts_def)

lemma find_contexts_single:
  "find_contexts cid [c] = (if company_id c = cid then [c] else [])"
  by (simp add: find_contexts_def)

lemma find_active_append:
  "find_active cid (xs @ ys) = find_active cid xs @ find_active cid ys"
  by (simp add: find_active_def)

lemma find_active_single:
  "find_active cid [c] = (if company_id c = cid \<and> isActive c then [c] else [])"
  by (simp add: find_active_def)

lemmas find_snoc =
  find_contexts_append find_contexts_single find_active_append find_active_single

lemma find_contexts_Nil_active:
  "find_contexts cid cs = [] \<Longrightarrow> find_active cid cs = []"
  by (auto simp: find_contexts_def find_active_def filter_empty_conv)

lemma find_contexts_deactivate_all:
  "map version (find_contexts cid (deactivate_all cid' cs)) = map version (find_contexts cid cs)"
  by (induction cs) (auto simp: find_contexts_def deactivate_all_def)

lemma find_contexts_deactivate_all_Nil:
  "find_contexts cid (deactivate_all cid' cs) = [] \<longleftrightarrow> find_contexts cid cs = []"
  by (induction cs) (auto simp: find_contexts_def deactivate_all_def)

lemma find_active_deactivate_all_same:
  "find_active cid (deactivate_all cid cs) = []"
  by (induction cs) (auto simp: find_active_def deactivate_all_def)

lemma find_active_deactivate_all_other:
  "cid \<noteq> cid' \<Longrightarrow> find_active cid (deactivate_all cid' cs) = find_active cid cs"
  by (induction cs) (auto simp: find_active_def deactivate_all_def)

lemma sort_key_Nil: "sort_key f xs = [] \<longleftrightarrow> xs = []"
  using length_sort [of f xs] by (metis length_0_conv)

lemma active_sorted:
  "length (filter isActive (sort_key f (find_contexts cid cs))) = length (find_active cid cs)"
proof -
  have "filter isActive (find_contexts cid cs) = find_active cid cs"
    by (simp add: find_contexts_def find_active_def conj_commute)
  then show ?thesis
    by (simp add: filter_sort)
qed

subsection \<open>Consecutive version numbers\<close>

lemma consecutive_from_snoc:
  "consecutive_from n vs \<Longrightarrow> consecutive_from n (vs @ [n + int (length vs)])"
proof (induction vs arbitrary: n)
  case Nil
  then show ?case by simp
next
  case (Cons v vs)
  then have "consecutive_from (n + 1) (vs @ [n + 1 + int (length vs)])" by simp
  moreover have "n + 1 + int (length vs) = n + int (length (v # vs))" by simp
  ultimately show ?case using Cons.prems by simp
qed

lemma consecutive_from_set:
  "consecutive_from n vs \<Longrightarrow> set vs = {n ..< n + int (length vs)}"
proof (induction vs arbitrary: n)
  case Nil
  then show ?case by simp
next
  case (Cons v vs)
  then have "set vs = {n + 1 ..< n + 1 + int (length vs)}" by simp
  moreover have "v = n" using Cons.prems by simp
  ultimately show ?case by auto
qed

lemma consecutive_from_distinct:
  "consecutive_from n vs \<Longrightarrow> distinct vs"
proof (induction vs arbitrary: n)
  case Nil
  then show ?case by simp
next
  case (Cons v vs)
  then have "set vs = {n + 1 ..< n + 1 + int (length vs)}"
    by (simp add: consecutive_from_set)
  with Cons show ?case by auto
qed

lemma consecutive_from_Max:
  assumes c: "consecutive_from n vs" and ne: "vs \<noteq> []"
  shows "Max (set vs) = n + int (length vs) - 1"
proof -
  have "set vs = {n ..< n + int (length vs)}" using c by (rule consecutive_from_set)
  also have "\<dots> = {n .. n + int (length vs) - 1}" by auto
  finally have m: "Max (set vs) = Max {n .. n + int (length vs) - 1}" by simp
  have "n \<le> n + int (length vs) - 1" using ne by (cases vs) auto
  then have "Max {n .. n + int (length vs) - 1} = n + int (length vs) - 1"
    by (intro Max_eqI) auto
  with m show ?thesis by simp
qed

lemma newVersion_consecutive:
  assumes "consecutive_from 1 (map version cs)" and "length cs < 2 ^ 53"
  shows "(case latest cs of Some l \<Rightarrow> js_add1 (version l) | None \<Rightarrow> 1)
         = 1 + int (length cs)"
proof (cases "latest cs")
  case None
  then show ?thesis by (simp add: latest_None)
next
  case (Some l)
  then have ne: "cs \<noteq> []" by auto
  have "version l = Max (set (map version cs))" using Some by (rule latest_Max)
  also have "\<dots> = 1 + int (length (map version cs)) - 1"
    using assms(1) ne by (intro consecutive_from_Max) auto
  finally have v: "version l = int (length cs)" by simp
  have "int (length cs) < int (2 ^ 53)"
    using assms(2) by (simp only: of_nat_less_iff)
  then have "int (length cs) < 2 ^ 53" by simp
  then have "js_add1 (int (length cs)) = int (length cs) + 1"
    by (intro js_add1_safe) auto
  with Some v show ?thesis by simp
qed

subsection \<open>Create and update keep the single active version\<close>

lemma single_active_create:
  assumes "single_active cid s"
  shows "single_active cid (snd (createCompany body commit s))"
proof (cases "fst (createCompany body commit s)")
  case (Inl e)
  then have "snd (createCompany body commit s) = s"
    by (auto simp: createCompany_def Let_def split: if_splits option.splits)
  with assms show ?thesis by simp
next
  case (Inr r)
  then have ok: "companies s (b_companyId body) = None"
    and s': "snd (createCompany body commit s) =
         s\<lparr>companies := (companies s)(b_companyId body \<mapsto> snd r),
           contexts := contexts s @
             [\<lparr>company_id = b_companyId body, contextText = b_documentContext body,
               version = 1, isActive = True\<rparr>]\<rparr>"
    by (auto simp: createCompany_def Let_def split: if_splits option.splits)
  show ?thesis
  proof (cases "b_companyId body = cid")
    case True
    with ok assms have none: "find_contexts cid (contexts s) = []"
      by (simp add: single_active_def)
    then have "find_active cid (contexts s) = []" by (rule find_contexts_Nil_active)
    with none True show ?thesis
      unfolding s' single_active_def active_count_def
      by (simp add: find_snoc)
  next
    case False
    with assms show ?thesis
      unfolding s' single_active_def active_count_def
      by (simp add: find_snoc)
  qed
qed

lemma updateCompanyContext_cases:
  obtains (failed) e where "updateCompanyContext cid' ctx commit s = (Inl e, s)"
  | (updated) r company where "companies s cid' = Some company"
      "updateCompanyContext cid' ctx commit s =
         (Inr r,
          s\<lparr>contexts := deactivate_all cid' (contexts s) @
              [\<lparr>company_id = cid', contextText = ctx,
                version = (case latest (find_contexts cid' (contexts s)) of
                             Some l \<Rightarrow> js_add1 (version l) | None \<Rightarrow> 1),
                isActive = True\<rparr>],
            companies := (companies s)(cid' \<mapsto> company\<lparr>documentContext := ctx\<rparr>)\<rparr>)"
proof (cases "truthy ctx \<and> commit")
  case False
  then have "updateCompanyContext cid' ctx commit s
             = (fst (updateCompanyContext cid' ctx commit s), s)"
    and "\<exists>e. fst (updateCompanyContext cid' ctx commit s) = Inl e"
    by (auto simp: updateCompanyContext_def Let_def split: option.splits)
  then show ?thesis using failed by metis
next
  case True
  show ?thesis
  proof (cases "companies s cid'")
    case None
    with True show ?thesis
      using failed by (simp add: updateCompanyContext_def)
  next
    case (Some company)
    with True show ?thesis
      using updated [of company] by (simp add: updateCompanyContext_def Let_def)
  qed
qed

lemma single_active_update:
  assumes "single_active cid s"
  shows "single_active cid (snd (updateCompanyContext cid' ctx commit s))"
proof (cases rule: updateCompanyContext_cases [of cid' ctx commit s])
  case (failed e)
  with assms show ?thesis by simp
next
  case (updated r company)
  show ?thesis
  proof (cases "cid' = cid")
    case True
    with updated show ?thesis
      unfolding single_active_def active_count_def
      by (simp add: find_snoc find_active_deactivate_all_same)
  next
    case False
    then have "cid \<noteq> cid'" by simp
    with assms updated show ?thesis
      unfolding single_active_def active_count_def
      by (simp add: find_snoc find_contexts_deactivate_all_Nil
            find_active_deactivate_all_other)
  qed
qed

lemma single_active_step:
  assumes "single_active cid s" and "\<not> is_delete x"
  shows "single_active cid (step x s)"
  using assms
  by (cases x) (auto simp: single_active_create single_active_update)

lemma single_active_run:
  assumes "single_active cid s" and "\<forall>x \<in> set ops. \<not> is_delete x"
  shows "single_active cid (run ops s)"
  using assms unfolding run_def
proof (induction ops arbitrary: s)
  case Nil
  then show ?case by simp
next
  case (Cons x ops)
  then have "single_active cid (step x s)"
    by (intro single_active_step) auto
  with Cons show ?case by simp
qed

lemma single_active_empty: "single_active cid empty_store"
  by (simp add: single_active_def empty_store_def active_count_def
        find_contexts_def find_active_def)

subsection \<open>Without re-creation the version numbers stay consecutive\<close>

lemma versioned_create:
  assumes "versioned cid d s"
    and "\<not> (d \<and> creates cid (CreateCompany body commit) s)"
  shows "versioned cid d (snd (createCompany body commit s))
         \<and> length (find_contexts cid (contexts (snd (createCompany body commit s))))
             \<le> Suc (length (find_contexts cid (contexts s)))"
proof (cases "fst (createCompany body commit s)")
  case (Inl e)
  then have "snd (createCompany body commit s) = s"
    by (auto simp: createCompany_def Let_def split: if_splits option.splits)
  with assms show ?thesis by simp
next
  case (Inr r)
  then have ok: "companies s (b_companyId body) = None"
    and s': "snd (createCompany body commit s) =
         s\<lparr>companies := (companies s)(b_companyId body \<mapsto> snd r),
           contexts := contexts s @
             [\<lparr>company_id = b_companyId body, contextText = b_documentContext body,
               version = 1, isActive = True\<rparr>]\<rparr>"
    by (auto simp: createCompany_def Let_def split: if_splits option.splits)
  show ?thesis
  proof (cases "b_companyId body = cid")
    case True
    with Inr assms(2) have nd: "\<not> d" by (simp add: succeeds_def)
    with True ok assms(1) have none: "find_contexts cid (contexts s) = []"
      by (simp add: versioned_def)
    with True nd show ?thesis
      unfolding s' versioned_def versions_of_def
      by (simp add: find_snoc)
  next
    case False
    with assms(1) show ?thesis
      unfolding s' versioned_def versions_of_def
      by (simp add: find_snoc)
  qed
qed

lemma versioned_update:
  assumes "versioned cid d s"
    and "length (find_contexts cid (contexts s)) < 2 ^ 53"
  shows "versioned cid d (snd (updateCompanyContext cid' ctx commit s))
         \<and> length (find_contexts cid (contexts (snd (updateCompanyContext cid' ctx commit s))))
             \<le> Suc (length (find_contexts cid (contexts s)))"
proof (cases rule: updateCompanyContext_cases [of cid' ctx commit s])
  case (failed e)
  with assms show ?thesis by simp
next
  case (updated r company)
  have len: "length (find_contexts cid (deactivate_all cid' (contexts s)))
             = length (find_contexts cid (contexts s))"
    using find_contexts_deactivate_all [of cid cid' "contexts s"]
    by (metis length_map)
  show ?thesis
  proof (cases "cid' = cid")
    case True
    with updated(1) assms(1) have nd: "\<not> d"
      by (auto simp: versioned_def)
    from assms(1) have cons: "consecutive_from 1 (map version (find_contexts cid (contexts s)))"
      by (simp add: versioned_def versions_of_def)
    then have nv: "(case latest (find_contexts cid (contexts s)) of
                      Some l \<Rightarrow> js_add1 (version l) | None \<Rightarrow> 1)
                   = 1 + int (length (map version (find_contexts cid (contexts s))))"
      using assms(2) by (simp add: newVersion_consecutive)
    have vs: "versions_of cid (snd (updateCompanyContext cid' ctx commit s)) =
              map version (find_contexts cid (contexts s))
              @ [1 + int (length (map version (find_contexts cid (contexts s))))]"
      unfolding updated(2) versions_of_def using True nv
      by (simp add: find_snoc find_contexts_deactivate_all)
    have co: "companies (snd (updateCompanyContext cid' ctx commit s)) cid \<noteq> None"
      unfolding updated(2) using True by simp
    have le: "length (find_contexts cid (contexts (snd (updateCompanyContext cid' ctx commit s))))
              \<le> Suc (length (find_contexts cid (contexts s)))"
      unfolding updated(2) using len by (simp add: find_snoc)
    show ?thesis
      unfolding versioned_def vs
      using nd co le consecutive_from_snoc [OF cons]
      by auto
  next
    case False
    then have "cid \<noteq> cid'" by simp
    with assms(1) updated len show ?thesis
      unfolding versioned_def versions_of_def
      by (simp add: find_snoc find_contexts_deactivate_all find_contexts_deactivate_all_Nil)
  qed
qed

lemma versioned_delete:
  assumes "versioned cid d s"
  shows "versioned cid (d \<or> deletes cid (DeleteCompany cid') s) (snd (deleteCompany cid' s))
         \<and> contexts (snd (deleteCompany cid' s)) = contexts s"
  using assms
  by (auto simp: deleteCompany_def versioned_def versions_of_def succeeds_def
           split: option.splits if_splits)

lemma versioned_step:
  assumes "versioned cid d s" and "\<not> (d \<and> creates cid x s)"
    and "length (find_contexts cid (contexts s)) < 2 ^ 53"
  shows "versioned cid (d \<or> deletes cid x s) (step x s)
         \<and> length (find_contexts cid (contexts (step x s)))
             \<le> Suc (length (find_contexts cid (contexts s)))"
proof (cases x)
  case (CreateCompany body commit)
  with assms(1,2) versioned_create [of cid d s body commit] show ?thesis by simp
next
  case (UpdateCompanyContext cid' ctx commit)
  with assms(1,3) versioned_update [of cid d s cid' ctx commit] show ?thesis by simp
next
  case (DeleteCompany cid')
  with assms(1) versioned_delete [of cid d s cid'] show ?thesis by simp
qed

lemma versioned_run:
  assumes "versioned cid d s" and "\<not> recreates cid d ops s"
    and "length (find_contexts cid (contexts s)) + length ops < 2 ^ 53"
  shows "consecutive_from 1 (versions_of cid (run ops s))"
  using assms unfolding run_def
proof (induction ops arbitrary: s d)
  case Nil
  then show ?case by (simp add: versioned_def)
next
  case (Cons x ops)
  from Cons.prems(3) have small: "length (find_contexts cid (contexts s)) < 2 ^ 53"
    by simp
  from Cons.prems(2) have nc: "\<not> (d \<and> creates cid x s)"
    and rest: "\<not> recreates cid (d \<or> deletes cid x s) ops (step x s)"
    by simp_all
  from versioned_step [OF Cons.prems(1) nc small]
  have v: "versioned cid (d \<or> deletes cid x s) (step x s)"
    and le: "length (find_contexts cid (contexts (step x s)))
             \<le> Suc (length (find_contexts cid (contexts s)))"
    by simp_all
  from le Cons.prems(3)
  have "length (find_contexts cid (contexts (step x s))) + length ops < 2 ^ 53"
    by simp
  from Cons.IH [OF v rest this] show ?case by simp
qed

lemma versioned_empty: "versioned cid False empty_store"
  by (simp add: versioned_def empty_store_def versions_of_def find_contexts_def)

section \<open>The single active version\<close>

text \<open>
  C1. Starting from the empty store, after any sequence of completed \<open>createCompany\<close> and
  \<open>updateCompanyContext\<close> calls, whether their transactions commit or abort, every company
  has at most one version record with \<open>isActive = true\<close>.
\<close>

theorem C1_single_active:
  assumes "\<forall>x \<in> set ops. \<not> is_delete x"
  shows "active_count companyId (run ops empty_store) \<le> 1"
proof -
  from single_active_empty assms
  have "single_active companyId (run ops empty_store)"
    by (rule single_active_run)
  then show ?thesis by (simp add: single_active_def)
qed

theorem C1_single_active_witness:
  "active_count ''c1''
     (run [CreateCompany (acme ''ctx-v1'') True,
           UpdateCompanyContext ''c1'' ''ctx-v2'' True,
           UpdateCompanyContext ''c1'' ''ctx-v3'' False] empty_store) \<le> 1"
  using C1_single_active [of "[CreateCompany (acme ''ctx-v1'') True,
                               UpdateCompanyContext ''c1'' ''ctx-v2'' True,
                               UpdateCompanyContext ''c1'' ''ctx-v3'' False]" "''c1''"]
  by simp

section \<open>Version numbers\<close>

text \<open>
  C4, as the code has it. \<open>deleteCompany\<close> leaves the version records of the company in
  place and \<open>createCompany\<close> always inserts version 1, so a company re-created under the
  same \<open>companyId\<close> gets a second record with version 1: version numbers are reused.
\<close>

theorem C4_versions_counterexample:
  "versions_of ''c1''
     (run [CreateCompany (acme ''ctx-v1'') True, DeleteCompany ''c1'',
           CreateCompany (acme ''ctx-v1b'') True] empty_store) = [1, 1]
   \<and> \<not> distinct [1, 1 :: int] \<and> \<not> consecutive_from 1 [1, 1]
   \<and> recreates ''c1'' False
         [CreateCompany (acme ''ctx-v1'') True, DeleteCompany ''c1'',
          CreateCompany (acme ''ctx-v1b'') True] empty_store"
  by (simp add: run_def createCompany_def deleteCompany_def empty_store_def acme_simps
        trim_Acme trim_Nil truthy_def versions_of_def find_contexts_def Let_def
        succeeds_def)

text \<open>
  C4, amended. Starting from the empty store, after any sequence of fewer than \<open>2 ^ 53\<close>
  \<open>createCompany\<close>, \<open>updateCompanyContext\<close> and \<open>deleteCompany\<close> calls in which no
  \<open>createCompany\<close> for this \<open>companyId\<close> succeeds after a \<open>deleteCompany\<close> of it has
  succeeded, the version numbers of its records, in insertion order, are 1, 2, 3, ...
  without gaps, and no version number occurs twice. Deletions, updates after a deletion,
  and calls that fail are all allowed.
\<close>

theorem C4_versions_without_recreation:
  assumes "\<not> recreates companyId False ops empty_store" and "length ops < 2 ^ 53"
  shows "consecutive_from 1 (versions_of companyId (run ops empty_store))
         \<and> distinct (versions_of companyId (run ops empty_store))"
proof -
  have "length (find_contexts companyId (contexts empty_store)) + length ops < 2 ^ 53"
    using assms(2) by (simp add: empty_store_def find_contexts_def)
  with versioned_empty assms(1)
  have "consecutive_from 1 (versions_of companyId (run ops empty_store))"
    by (rule versioned_run)
  then show ?thesis by (simp add: consecutive_from_distinct)
qed

theorem C4_versions_without_recreation_witness:
  "versions_of ''c1'' (run history1 empty_store) = [1, 2]
   \<and> consecutive_from 1 (versions_of ''c1'' (run history1 empty_store))
   \<and> distinct (versions_of ''c1'' (run history1 empty_store))"
proof -
  have h: "\<not> recreates ''c1'' False history1 empty_store"
    by (simp add: history1_def succeeds_def createCompany_def updateCompanyContext_def
          deleteCompany_def empty_store_def acme_simps trim_Acme trim_Nil truthy_def
          Let_def)
  have n: "length history1 < 2 ^ 53"
    by (simp add: history1_def)
  have v: "versions_of ''c1'' (run history1 empty_store) = [1, 2]"
    by (simp add: history1_def run_def createCompany_def updateCompanyContext_def
          deleteCompany_def empty_store_def acme_simps trim_Acme trim_Nil truthy_def
          Let_def deactivate_all_def find_contexts_def versions_of_def js_add1_def)
  from C4_versions_without_recreation [OF h n] v show ?thesis by simp
qed

section \<open>Updating the context\<close>




section \<open>Reading the context\<close>

text \<open>
  C5. For a \<open>companyId\<close> with no company record and no version record, \<open>createCompany\<close>
  with context text \<open>X\<close> succeeds (all required fields given, the transaction
  committing), and \<open>getCompanyContext\<close> on the resulting store returns the text \<open>X\<close>,
  version 1 and the source tag \<open>context_collection\<close>.
\<close>

theorem C5_create_then_read:
  assumes fresh: "companies s companyId = None" "find_contexts companyId (contexts s) = []"
    and body: "b_companyId body = companyId" "b_documentContext body = X"
    and given: "companyId \<noteq> []" "trim (b_name body) \<noteq> []" "X \<noteq> []" "b_chatbotUrl body \<noteq> []"
  shows "\<exists>company s'.
           createCompany body True s = (Inr (companyId, company), s')
           \<and> getCompanyContext companyId s' =
               Inr \<lparr>r_company_id = companyId, r_company_name = name company,
                    r_context = X, r_version = 1, r_source = ''context_collection''\<rparr>"
proof -
  have nm: "b_name body \<noteq> []"
    using given(2) trim_Nil by auto
  let ?new = "\<lparr>company_id = companyId, contextText = X, version = 1, isActive = True\<rparr>"
  let ?company = "\<lparr>name = trim (b_name body), documentName = trim (b_documentName body),
                   documentContext = X, trainingStatus = completed,
                   chatbotUrl = b_chatbotUrl body\<rparr>"
  let ?s' = "s\<lparr>companies := (companies s)(companyId \<mapsto> ?company),
               contexts := contexts s @ [?new]\<rparr>"
  have act: "find_active companyId (contexts s @ [?new]) = [?new]"
    using fresh(2) by (simp add: find_snoc find_contexts_Nil_active)
  have created: "createCompany body True s = (Inr (companyId, ?company), ?s')"
    using fresh(1) body given nm by (simp add: createCompany_def truthy_def Let_def)
  have read: "getCompanyContext companyId ?s' =
               Inr \<lparr>r_company_id = companyId, r_company_name = name ?company,
                    r_context = X, r_version = 1, r_source = ''context_collection''\<rparr>"
    using act by (simp add: getCompanyContext_def)
  from created read show ?thesis by blast
qed

theorem C5_create_then_read_witness:
  "companies acme_store ''c7'' = None \<and> find_contexts ''c7'' (contexts acme_store) = []
   \<and> trim ''Acme'' \<noteq> []
   \<and> (\<exists>company s'.
        createCompany \<lparr>b_companyId = ''c7'', b_name = ''Acme'', b_documentName = [],
                       b_documentContext = ''X'', b_chatbotUrl = ''/c7''\<rparr> True acme_store
          = (Inr (''c7'', company), s')
        \<and> getCompanyContext ''c7'' s' =
            Inr \<lparr>r_company_id = ''c7'', r_company_name = name company,
                 r_context = ''X'', r_version = 1, r_source = ''context_collection''\<rparr>)"
  using C5_create_then_read [of acme_store "''c7''"
     "\<lparr>b_companyId = ''c7'', b_name = ''Acme'', b_documentName = [],
       b_documentContext = ''X'', b_chatbotUrl = ''/c7''\<rparr>" "''X''"]
  by (simp add: acme_store_def find_contexts_def trim_Acme)

text \<open>
  C6. A company record with a non-empty \<open>documentContext\<close> \<open>Y\<close> and no version record
  is read as text \<open>Y\<close>, version 1, source tag \<open>company_fallback\<close>. When the company has
  no active version record and no company record with a non-empty \<open>documentContext\<close>
  exists, the read fails with status 404.
\<close>

theorem C6_fallback_read:
  "(companies s companyId = Some company \<and> documentContext company = Y \<and> Y \<noteq> []
      \<and> find_contexts companyId (contexts s) = []
    \<longrightarrow> getCompanyContext companyId s =
          Inr \<lparr>r_company_id = companyId, r_company_name = name company,
               r_context = Y, r_version = 1, r_source = ''company_fallback''\<rparr>)
   \<and> (find_active companyId (contexts s) = []
      \<and> (\<forall>company. companies s companyId = Some company \<longrightarrow> documentContext company = [])
    \<longrightarrow> (\<exists>e. getCompanyContext companyId s = Inl e \<and> statusCode e = 404))"
  by (auto simp: getCompanyContext_def truthy_def createError_def find_contexts_Nil_active
           split: option.splits)

theorem C6_fallback_read_witness:
  "companies legacy_store ''legacy'' = Some legacy_company
   \<and> documentContext legacy_company = ''Y''
   \<and> find_contexts ''legacy'' (contexts legacy_store) = []
   \<and> getCompanyContext ''legacy'' legacy_store =
       Inr \<lparr>r_company_id = ''legacy'', r_company_name = ''Legacy'',
            r_context = ''Y'', r_version = 1, r_source = ''company_fallback''\<rparr>
   \<and> find_active ''bare'' (contexts bare_store) = []
   \<and> companies bare_store ''bare'' = Some bare_company
   \<and> documentContext bare_company = []
   \<and> (\<exists>e. getCompanyContext ''bare'' bare_store = Inl e \<and> statusCode e = 404)"
  using C6_fallback_read [of legacy_store "''legacy''" legacy_company "''Y''"]
        C6_fallback_read [of bare_store "''bare''" bare_company "[]"]
  by (simp add: legacy_store_def legacy_company_def bare_store_def bare_company_def
        find_contexts_def find_active_def)

section \<open>Deleting a company\<close>

text \<open>
  C10. \<open>deleteCompany\<close> changes nothing but the company record of that \<open>companyId\<close>:
  the version records, the active one included, stay as they are, and
  \<open>getCompanyContext\<close> on that \<open>companyId\<close> afterwards fails with status 404.
\<close>

theorem C10_delete_keeps_versions:
  "contexts (snd (deleteCompany companyId s)) = contexts s
   \<and> companies (snd (deleteCompany companyId s)) = (companies s)(companyId := None)
   \<and> getCompanyContext companyId (snd (deleteCompany companyId s))
       = Inl (createError (''Company with ID '' @ companyId @ '' not found'') 404)"
  by (auto simp: deleteCompany_def getCompanyContext_def split: option.splits)

theorem C10_delete_keeps_versions_witness:
  "fst (deleteCompany ''c1'' acme_store) = Inr ()
   \<and> find_active ''c1'' (contexts (snd (deleteCompany ''c1'' acme_store))) =
       [\<lparr>company_id = ''c1'', contextText = ''ctx-v2'', version = 2, isActive = True\<rparr>]
   \<and> getCompanyContext ''c1'' (snd (deleteCompany ''c1'' acme_store))
       = Inl (createError ''Company with ID c1 not found'' 404)"
proof -
  have "fst (deleteCompany ''c1'' acme_store) = Inr ()"
    by (simp add: deleteCompany_def acme_store_def)
  moreover have "find_active ''c1'' (contexts acme_store) =
       [\<lparr>company_id = ''c1'', contextText = ''ctx-v2'', version = 2, isActive = True\<rparr>]"
    by (simp add: find_active_def acme_store_def)
  ultimately show ?thesis
    using C10_delete_keeps_versions [of "''c1''" acme_store] by simp
qed

section \<open>The diagnostic report\<close>

text \<open>
  C7, as the code has it. For a company that does not exist the route answers with
  status 404, not 200.
\<close>

theorem C7_missing_company_counterexample:
  "companies empty_store ''ghost'' = None
   \<and> status (contextDiagnostic True None ''ghost'' empty_store) = 404
   \<and> status (contextDiagnostic True None ''ghost'' empty_store) \<noteq> 200"
  by (simp add: contextDiagnostic_def empty_store_def)

text \<open>
  C7, amended. The route answers 500 exactly when the models are unavailable or a query
  raises, otherwise 404 when the company does not exist and 200 when it does; the body
  of the 404 answer carries a diagnostic with \<open>exists = false\<close>.
\<close>

theorem C7_diagnostic_status:
  "status (contextDiagnostic models_available fault companyId s) =
     (if \<not> models_available \<or> fault \<noteq> None then 500
      else if companies s companyId = None then 404 else 200)
   \<and> (models_available \<and> fault = None \<and> companies s companyId = None \<longrightarrow>
        diagnostic (contextDiagnostic models_available fault companyId s) =
          Some (Missing \<lparr>m_companyId = companyId, m_exists = False,
                         m_action = ''Company must be created first''\<rparr>))"
  by (auto simp: contextDiagnostic_def Let_def split: option.splits)

theorem C7_diagnostic_status_witness:
  "companies acme_store ''ghost'' = None
   \<and> status (contextDiagnostic True None ''ghost'' acme_store) = 404
   \<and> diagnostic (contextDiagnostic True None ''ghost'' acme_store) =
       Some (Missing \<lparr>m_companyId = ''ghost'', m_exists = False,
                      m_action = ''Company must be created first''\<rparr>)
   \<and> status (contextDiagnostic True None ''c1'' acme_store) = 200
   \<and> status (contextDiagnostic True (Some ''connection lost'') ''c1'' acme_store) = 500"
  using C7_diagnostic_status [of True None "''ghost''" acme_store]
        C7_diagnostic_status [of True None "''c1''" acme_store]
        C7_diagnostic_status [of True "Some ''connection lost''" "''c1''" acme_store]
  by (simp add: acme_store_def)

text \<open>
  C8, as the code has it. The report counts a denormalized context as present only when
  it is longer than 100 characters: a company with the one-character context \<open>Y\<close> and
  no version record is told \<open>UPLOAD_DOCUMENT\<close>, not \<open>CREATE_CONTEXT\<close>.
\<close>

theorem C8_short_context_counterexample:
  "contextDiagnostic True None ''legacy'' legacy_store =
     \<lparr>status = 200, success = True, error_message = [],
      diagnostic = Some (Report
        \<lparr>d_companyId = ''legacy'', d_exists = True, d_companyName = ''Legacy'',
         d_hasDocumentContext = False, d_documentContextLength = 1,
         d_contextsCount = 0, d_activeContexts = 0, d_contexts = [],
         d_suggestion = Some UPLOAD_DOCUMENT,
         d_action = ''Upload a document and train the model again''\<rparr>)\<rparr>"
  by (simp add: contextDiagnostic_def legacy_store_def legacy_company_def truthy_def
        find_contexts_def Let_def)

text \<open>
  C8, amended. For an existing company the report is a 200 answer whose suggestion is
  \<open>CREATE_CONTEXT\<close> exactly when no version record exists and the denormalized context
  is longer than 100 characters, \<open>UPLOAD_DOCUMENT\<close> exactly when no version record
  exists and the denormalized context has at most 100 characters (or is absent), and
  \<open>FIX_ACTIVE_CONTEXTS\<close> exactly when more than one version record is active; the
  counts of version records and of active ones are reported as they are.
\<close>

theorem C8_diagnostic_suggestion:
  assumes "companies s companyId = Some company"
  shows "\<exists>r. contextDiagnostic True None companyId s =
               \<lparr>status = 200, success = True, error_message = [],
                diagnostic = Some (Report r)\<rparr>
             \<and> d_contextsCount r = length (find_contexts companyId (contexts s))
             \<and> d_activeContexts r = active_count companyId s
             \<and> (d_suggestion r = Some CREATE_CONTEXT \<longleftrightarrow>
                  find_contexts companyId (contexts s) = []
                  \<and> length (documentContext company) > 100)
             \<and> (d_suggestion r = Some UPLOAD_DOCUMENT \<longleftrightarrow>
                  find_contexts companyId (contexts s) = []
                  \<and> length (documentContext company) \<le> 100)
             \<and> (d_suggestion r = Some FIX_ACTIVE_CONTEXTS \<longleftrightarrow>
                  active_count companyId s > 1)"
proof -
  have no_active: "find_contexts companyId (contexts s) = [] \<Longrightarrow> active_count companyId s = 0"
    by (simp add: active_count_def find_contexts_Nil_active)
  show ?thesis
    using assms no_active
    by (auto simp: contextDiagnostic_def Let_def truthy_def active_sorted active_count_def
          sort_key_Nil)
qed

theorem C8_diagnostic_suggestion_witness:
  "companies multi_active_store ''c1'' = Some acme_company
   \<and> (\<exists>r. contextDiagnostic True None ''c1'' multi_active_store =
             \<lparr>status = 200, success = True, error_message = [],
              diagnostic = Some (Report r)\<rparr>
           \<and> d_contextsCount r = 2 \<and> d_activeContexts r = 2
           \<and> d_suggestion r = Some FIX_ACTIVE_CONTEXTS)"
proof -
  have c: "companies multi_active_store ''c1'' = Some acme_company"
    by (simp add: multi_active_store_def)
  have n: "length (find_contexts ''c1'' (contexts multi_active_store)) = 2"
    by (simp add: multi_active_store_def find_contexts_def)
  have a: "active_count ''c1'' multi_active_store = 2"
    by (simp add: multi_active_store_def active_count_def find_active_def)
  from C8_diagnostic_suggestion [OF c] n a c show ?thesis
    by auto
qed

section \<open>Removing a team member\<close>

lemma team1_ids:
  "hex24 team_t1" "hex24 team_t9" "\<not> hex24 ''t9''" "team_t9 \<noteq> team_t1"
  by (simp_all add: hex24_def is_hex_def team_t1_def team_t9_def)

lemma team1_lookup:
  "teams1 team_t1 = Some team1" "teams1 team_t9 = None" "owner team1 = user_u1"
  by (simp_all add: teams1_def team1_def team_t1_def team_t9_def)

lemma team1_members:
  "find_member user_u1 (members team1) = Inr (Some \<lparr>user = Some user_u1, role = ''owner''\<rparr>)"
  "find_member user_u2 (members team1) = Inr (Some \<lparr>user = Some user_u2, role = ''member''\<rparr>)"
  "find_member user_u3 (members team1) = Inr (Some \<lparr>user = Some user_u3, role = ''admin''\<rparr>)"
  "find_member user_u4 (members team1) = Inr None"
  by (simp_all add: team1_def user_u1_def user_u2_def user_u3_def user_u4_def)

text \<open>
  C9, as the code has it. The caller's authorization is checked before the target: a
  caller who is a plain member and asks to remove the owner is answered 403, not 400.
  And a team identifier that is no ObjectId makes the lookup raise, which is answered
  500, not 404.
\<close>

theorem C9_non_admin_counterexample:
  "owner team1 = user_u1
   \<and> removeTeamMember hex24 True team_t1 user_u1 user_u2 teams1 =
       (Inl (HttpError 403 ''Not authorized to remove members''), teams1)
   \<and> removeTeamMember hex24 True ''t9'' user_u1 user_u3 teams1 = (Inl Thrown, teams1)
   \<and> statusCode Thrown = 500"
  by (simp add: removeTeamMember_def team1_ids team1_lookup team1_members createError_def)

text \<open>
  C9, amended. The team is looked up before the caller's membership is evaluated: a team
  identifier that is no ObjectId is answered 500 and a well-formed identifier of no team
  404, whoever the caller is. For an existing team, a request whose target is the team
  owner is always rejected and leaves the teams unchanged: with 400 when the caller's
  membership entry has the role owner or admin, with 403 when the caller is no member
  or has another role, and with 500 when a membership entry without user reference is
  met before the caller's.
\<close>

theorem C9_owner_removal:
  "(\<not> isObjectId teamId \<longrightarrow>
      removeTeamMember isObjectId saved teamId userId caller teams = (Inl Thrown, teams))
   \<and> (isObjectId teamId \<and> teams teamId = None \<longrightarrow>
        removeTeamMember isObjectId saved teamId userId caller teams =
          (Inl (createError ''Team not found'' 404), teams))
   \<and> (isObjectId teamId \<and> teams teamId = Some team \<and> owner team = userId \<longrightarrow>
        removeTeamMember isObjectId saved teamId userId caller teams =
          (Inl (case find_member caller (members team) of
                  Inl e \<Rightarrow> e
                | Inr None \<Rightarrow> createError ''Not authorized to remove members'' 403
                | Inr (Some m) \<Rightarrow>
                    if role m = ''owner'' \<or> role m = ''admin''
                    then createError ''Team owner cannot be removed'' 400
                    else createError ''Not authorized to remove members'' 403),
           teams))"
  by (auto simp: removeTeamMember_def split: option.splits sum.splits)

theorem C9_owner_removal_witness:
  "removeTeamMember hex24 True ''t9'' user_u1 user_u3 teams1 = (Inl Thrown, teams1)
   \<and> removeTeamMember hex24 True team_t9 user_u1 user_u3 teams1 =
       (Inl (HttpError 404 ''Team not found''), teams1)
   \<and> removeTeamMember hex24 True team_t1 user_u1 user_u3 teams1 =
       (Inl (HttpError 400 ''Team owner cannot be removed''), teams1)
   \<and> removeTeamMember hex24 True team_t1 user_u1 user_u1 teams1 =
       (Inl (HttpError 400 ''Team owner cannot be removed''), teams1)
   \<and> removeTeamMember hex24 True team_t1 user_u1 user_u4 teams1 =
       (Inl (HttpError 403 ''Not authorized to remove members''), teams1)"
  using C9_owner_removal [of hex24 "''t9''" True user_u1 user_u3 teams1]
        C9_owner_removal [of hex24 team_t9 True user_u1 user_u3 teams1]
        C9_owner_removal [of hex24 team_t1 True user_u1 user_u3 teams1 team1]
        C9_owner_removal [of hex24 team_t1 True user_u1 user_u1 teams1 team1]
        C9_owner_removal [of hex24 team_t1 True user_u1 user_u4 teams1 team1]
  by (simp add: team1_ids team1_lookup team1_members createError_def)

end
